theory Spec2Isabelle
  imports Main "HOL-Library.AList"
begin

section \<open>The streamer: data model\<close>

text \<open>
  The program is a single Python module that connects to a brokerage gateway, opens one
  CSV file per ticker, subscribes to 5-second bars and appends one row per bar. Everything
  it does is an effect on the outside world (files, the gateway session, standard output),
  so the model threads an explicit world through every function and returns either a value
  or the exception that left the function.
\<close>

subsection \<open>Exceptions\<close>

text \<open>
  The exceptions that occur. The first seven are subclasses of \<open>Exception\<close>;
  \<open>KeyboardInterrupt\<close> and \<open>SystemExit\<close> derive from \<open>BaseException\<close> only, so an
  \<open>except Exception\<close> clause lets them through and a bare \<open>except:\<close> catches them.
  \<open>ApiError\<close> stands for whatever the brokerage client library raises.
\<close>

datatype exn =
    KeyError | IndexError | AttributeError | ValueError | OSError | UnicodeEncodeError
  | ApiError | KeyboardInterrupt | SystemExit int

fun is_Exception :: "exn \<Rightarrow> bool" where
  "is_Exception KeyboardInterrupt = False"
| "is_Exception (SystemExit n) = False"
| "is_Exception e = True"

subsection \<open>Bars, rows and files\<close>

text \<open>
  The fields of a bar (a \<open>datetime\<close> and floating-point numbers) are only passed on to the
  CSV writer, never computed with: their type is the parameter \<open>'v\<close>. A row is the list
  of cells handed to \<open>writer.writerow\<close>; a cell is a text (the header) or a bar field.
\<close>

datatype 'v cell = Txt string | Val 'v

type_synonym 'v row = "'v cell list"

record 'v bar =
  time :: 'v
  open' :: 'v
  high :: 'v
  low :: 'v
  close :: 'v
  volume :: 'v

text \<open>
  A \<open>RealTimeBarList\<close> is the subscription handle: a list of bars owned by the client
  library. It hashes and compares by identity, so as a dictionary key it is its identity
  \<open>ident\<close>; \<open>items\<close> is what the list holds when the handler looks at it.
\<close>

datatype 'v rtbars = RealTimeBarList (ident: nat) (items: "'v bar list")

datatype contract = Stock (c_symbol: string) (c_exchange: string) (c_currency: string)

text \<open>
  A file object: the path it appends to, its position (the size the file had when it was
  opened or last written through this object), the rows written but not yet flushed, and
  whether it has been closed. The file is a buffered text file: a row written to it stays
  in the buffer until a flush or the close. File objects live in a heap (the list
  \<open>files\<close> of the world) and are referred to by their index, as \<open>ctx['file']\<close> and the
  writer both refer to the same object \<open>f\<close>. A file on disk is the list of its rows; it
  is empty (size 0) exactly when that list is empty.
\<close>

record 'v file_obj =
  f_path :: string
  f_pos :: nat
  f_buffer :: "'v row list"
  f_closed :: bool

datatype csv_writer = CsvWriter (writer_file: nat)

record ctx =
  symbol :: string
  writer :: csv_writer
  file' :: nat

datatype signum = SIGINT | SIGTERM

subsection \<open>Observable events\<close>

text \<open>
  The messages the program prints, with the values interpolated into them. \<open>Banner\<close>
  stands for the opening lines of \<open>main\<close> and \<open>Streaming n\<close> for the lines printed before
  the event loop starts.
\<close>

datatype msg =
    Banner
  | Connected
  | ConnectFailed exn
  | OutputDirectory string
  | MakedirsFailed exn
  | SettingUp nat
  | SetupOk string
  | SetupFailed string exn
  | BarError exn
  | ReceivedSignal signum
  | ShutdownComplete
  | NoSetups
  | Streaming nat
  | Unexpected exn

text \<open>
  Every call that leaves the program is recorded in the trace of the world at the moment
  it is made, whether it then succeeds or raises; a \<open>print\<close> that raises is recorded as
  \<open>PrintFailed\<close>. A \<open>CallClose\<close> is also recorded when the interpreter closes a file
  object that nothing refers to any more.
\<close>

datatype 'v event =
    Print msg
  | PrintFailed msg
  | CallSignal signum
  | CallConnect
  | CallMakedirs string
  | CallOpen string
  | CallWriterow nat "'v row"
  | CallFlush nat
  | CallClose nat
  | CallReqRealTimeBars contract nat string bool
  | CallDisconnect

datatype ib_obj = IB (connected: bool)

subsection \<open>The world and its environment\<close>

text \<open>
  The world: the file system (\<open>disk\<close>, \<open>dirs\<close>), the heap of file objects, the two module
  globals \<open>ib\<close> and \<open>bars_map\<close>, the file object that the local variables \<open>f\<close> and
  \<open>writer\<close> of \<open>setup_streaming\<close> are bound to (\<open>local_f\<close>, \<open>None\<close> while they are
  unbound), the subscriptions the gateway has accepted, the handles whose \<open>updateEvent\<close>
  has \<open>on_bar\<close> attached, and the trace of calls made so far. \<open>bars_map\<close> is a Python dict:
  an association list in insertion order with distinct keys.
\<close>

record 'v world =
  disk :: "string \<rightharpoonup> 'v row list"
  dirs :: "string set"
  files :: "'v file_obj list"
  ib :: "ib_obj option"
  bars_map :: "(nat \<times> ctx) list"
  local_f :: "nat option"
  subscriptions :: "(nat \<times> string) list"
  callbacks :: "nat list"
  trace :: "'v event list"

text \<open>
  The environment decides what the program cannot: the configured output directory, which
  external calls fail, and which handle the client library returns for a subscription
  request. Each decision may depend on the moment of the call (the length of the trace),
  so that a call may fail once and succeed later. A \<open>print\<close> fails when standard output
  cannot be written (\<open>OSError\<close>, a full or broken device) or cannot encode the message
  (\<open>UnicodeEncodeError\<close>, the check mark and the cross of \<open>setup_streaming\<close> on a stream
  that is not UTF-8). \<open>final_flush_fails\<close> says whether the flush of standard output that
  the interpreter makes when the process ends fails.
\<close>

datatype stdout_error = Unwritable | Unencodable

fun stdout_exn :: "stdout_error \<Rightarrow> exn" where
  "stdout_exn Unwritable = OSError"
| "stdout_exn Unencodable = UnicodeEncodeError"

record env =
  OUTPUT_DIR :: string
  connect_fails :: "nat \<Rightarrow> bool"
  makedirs_fails :: "nat \<Rightarrow> bool"
  stock_fails :: "nat \<Rightarrow> string \<Rightarrow> bool"
  open_fails :: "nat \<Rightarrow> string \<Rightarrow> bool"
  flush_fails :: "nat \<Rightarrow> string \<Rightarrow> bool"
  close_fails :: "nat \<Rightarrow> string \<Rightarrow> bool"
  req_handle :: "nat \<Rightarrow> string \<Rightarrow> nat option"
  disconnect_fails :: "nat \<Rightarrow> bool"
  print_raises :: "nat \<Rightarrow> msg \<Rightarrow> stdout_error option"
  final_flush_fails :: "nat \<Rightarrow> bool"

definition clock :: "'v world \<Rightarrow> nat" where
  "clock w = length (trace w)"

subsection \<open>Computations\<close>

text \<open>
  A computation takes the world and returns the new world with either the exception that
  was raised (\<open>Inl\<close>) or the value returned (\<open>Inr\<close>). The effects made before an
  exception stay.
\<close>

type_synonym ('a, 'v) prog = "'v world \<Rightarrow> (exn + 'a) \<times> 'v world"

definition ret :: "'a \<Rightarrow> ('a, 'v) prog" where
  "ret x = (\<lambda>w. (Inr x, w))"

definition raise :: "exn \<Rightarrow> ('a, 'v) prog" where
  "raise e = (\<lambda>w. (Inl e, w))"

definition bind :: "('a, 'v) prog \<Rightarrow> ('a \<Rightarrow> ('b, 'v) prog) \<Rightarrow> ('b, 'v) prog" where
  "bind m f = (\<lambda>w. case m w of (Inl e, w') \<Rightarrow> (Inl e, w') | (Inr x, w') \<Rightarrow> f x w')"

text \<open>\<open>try: m except Exception as e: h e\<close>\<close>

definition try_except_Exception ::
    "('a, 'v) prog \<Rightarrow> (exn \<Rightarrow> ('a, 'v) prog) \<Rightarrow> ('a, 'v) prog" where
  "try_except_Exception m h =
     (\<lambda>w. case m w of
             (Inl e, w') \<Rightarrow> if is_Exception e then h e w' else (Inl e, w')
           | (Inr x, w') \<Rightarrow> (Inr x, w'))"

text \<open>\<open>try: m except KeyboardInterrupt: h1 except Exception as e: h2 e\<close>\<close>

definition try_except_KeyboardInterrupt_Exception ::
    "('a, 'v) prog \<Rightarrow> ('a, 'v) prog \<Rightarrow> (exn \<Rightarrow> ('a, 'v) prog) \<Rightarrow> ('a, 'v) prog" where
  "try_except_KeyboardInterrupt_Exception m h1 h2 =
     (\<lambda>w. case m w of
             (Inl e, w') \<Rightarrow>
               if e = KeyboardInterrupt then h1 w'
               else if is_Exception e then h2 e w'
               else (Inl e, w')
           | (Inr x, w') \<Rightarrow> (Inr x, w'))"

text \<open>\<open>try: m except: pass\<close>, which catches every exception.\<close>

definition try_except_pass :: "(unit, 'v) prog \<Rightarrow> (unit, 'v) prog" where
  "try_except_pass m =
     (\<lambda>w. case m w of (Inl e, w') \<Rightarrow> (Inr (), w') | (Inr x, w') \<Rightarrow> (Inr x, w'))"

text \<open>Reading a global.\<close>

definition gets :: "('v world \<Rightarrow> 'a) \<Rightarrow> ('a, 'v) prog" where
  "gets f = (\<lambda>w. (Inr (f w), w))"

definition emit :: "'v event \<Rightarrow> (unit, 'v) prog" where
  "emit ev = (\<lambda>w. (Inr (), w\<lparr>trace := trace w @ [ev]\<rparr>))"

text \<open>\<open>print(...)\<close>, which raises when standard output does.\<close>

definition print :: "env \<Rightarrow> msg \<Rightarrow> (unit, 'v) prog" where
  "print env m =
     (\<lambda>w. case print_raises env (clock w) m of
             None \<Rightarrow> (Inr (), w\<lparr>trace := trace w @ [Print m]\<rparr>)
           | Some err \<Rightarrow> (Inl (stdout_exn err), w\<lparr>trace := trace w @ [PrintFailed m]\<rparr>))"

definition sys_exit :: "int \<Rightarrow> ('a, 'v) prog" where
  "sys_exit n = raise (SystemExit n)"

section \<open>The external calls\<close>

text \<open>
  What the standard library, the interpreter and the client library do, as far as the
  program can observe. A call on a file object that has been closed raises \<open>ValueError\<close>;
  a call the environment lets fail raises \<open>OSError\<close> (files) or \<open>ApiError\<close> (gateway). A
  reference to a file object outside the heap cannot arise in Python; such a call raises
  as on a closed file.
\<close>

definition disk_read :: "'v world \<Rightarrow> string \<Rightarrow> 'v row list" where
  "disk_read w p = (case disk w p of None \<Rightarrow> [] | Some rows \<Rightarrow> rows)"

definition get_file :: "'v world \<Rightarrow> nat \<Rightarrow> 'v file_obj option" where
  "get_file w fid = (if fid < length (files w) then Some (files w ! fid) else None)"

text \<open>\<open>os.path.join\<close> (POSIX) of two components.\<close>

definition path_join :: "string \<Rightarrow> string \<Rightarrow> string" where
  "path_join a b =
     (if b \<noteq> [] \<and> hd b = CHR ''/'' then b
      else if a = [] \<or> last a = CHR ''/'' then a @ b
      else a @ ''/'' @ b)"

text \<open>
  \<open>open(p, 'a', newline='')\<close>: creates the file when it does not exist, keeps what it
  holds, and returns a new buffered file object positioned at its end.
\<close>

definition file_open :: "env \<Rightarrow> string \<Rightarrow> (nat, 'v) prog" where
  "file_open env p =
     (\<lambda>w. let w1 = w\<lparr>trace := trace w @ [CallOpen p]\<rparr> in
        if open_fails env (clock w) p then (Inl OSError, w1)
        else (Inr (length (files w)),
              w1\<lparr>disk := (disk w)(p \<mapsto> disk_read w p),
                 files := files w @
                   [\<lparr>f_path = p, f_pos = length (disk_read w p), f_buffer = [],
                     f_closed = False\<rparr>]\<rparr>))"

text \<open>
  \<open>f.tell()\<close>: the position of the file object, counted in rows. Right after the file
  was opened for appending this is the size the file had then.
\<close>

definition file_tell :: "nat \<Rightarrow> (nat, 'v) prog" where
  "file_tell fid =
     (\<lambda>w. case get_file w fid of
             None \<Rightarrow> (Inl ValueError, w)
           | Some f \<Rightarrow>
               if f_closed f then (Inl ValueError, w)
               else (Inr (f_pos f + length (f_buffer f)), w))"

text \<open>
  \<open>writer.writerow(row)\<close>: one row into the buffer of the writer's file. The rows the
  program writes are short and each is flushed or alone in its buffer, so the buffer never
  spills and the write itself touches no device: it raises only on a closed file.
\<close>

definition writerow :: "env \<Rightarrow> csv_writer \<Rightarrow> 'v row \<Rightarrow> (unit, 'v) prog" where
  "writerow env wr row =
     (\<lambda>w. let fid = writer_file wr; w1 = w\<lparr>trace := trace w @ [CallWriterow fid row]\<rparr> in
        case get_file w fid of
          None \<Rightarrow> (Inl ValueError, w1)
        | Some f \<Rightarrow>
            if f_closed f then (Inl ValueError, w1)
            else (Inr (), w1\<lparr>files := (files w)[fid := f\<lparr>f_buffer := f_buffer f @ [row]\<rparr>]\<rparr>))"

text \<open>
  \<open>f.flush()\<close>: the buffered rows go to the end of the file on disk. When it fails the
  rows stay in the buffer.
\<close>

definition file_flush :: "env \<Rightarrow> nat \<Rightarrow> (unit, 'v) prog" where
  "file_flush env fid =
     (\<lambda>w. let w1 = w\<lparr>trace := trace w @ [CallFlush fid]\<rparr> in
        case get_file w fid of
          None \<Rightarrow> (Inl ValueError, w1)
        | Some f \<Rightarrow>
            if f_closed f then (Inl ValueError, w1)
            else if flush_fails env (clock w) (f_path f) then (Inl OSError, w1)
            else (Inr (),
                  w1\<lparr>disk := (disk w)(f_path f \<mapsto> disk_read w (f_path f) @ f_buffer f),
                     files := (files w)[fid := f\<lparr>f_pos := length (disk_read w (f_path f) @ f_buffer f),
                                                  f_buffer := []\<rparr>]\<rparr>))"

text \<open>
  \<open>f.close()\<close>: nothing on a closed file; otherwise the file is closed whether or not the
  final flush succeeds, and what a failed flush could not write is lost.
\<close>

definition file_close :: "env \<Rightarrow> nat \<Rightarrow> (unit, 'v) prog" where
  "file_close env fid =
     (\<lambda>w. let w1 = w\<lparr>trace := trace w @ [CallClose fid]\<rparr> in
        case get_file w fid of
          None \<Rightarrow> (Inl ValueError, w1)
        | Some f \<Rightarrow>
            if f_closed f then (Inr (), w1)
            else if close_fails env (clock w) (f_path f)
            then (Inl OSError,
                  w1\<lparr>files := (files w)[fid := f\<lparr>f_buffer := [], f_closed := True\<rparr>]\<rparr>)
            else (Inr (),
                  w1\<lparr>disk := (disk w)(f_path f \<mapsto> disk_read w (f_path f) @ f_buffer f),
                     files := (files w)[fid := f\<lparr>f_buffer := [], f_closed := True\<rparr>]\<rparr>))"

text \<open>
  A file object that neither \<open>bars_map\<close> nor a local variable refers to is reclaimed by the
  interpreter at once (reference counting), which closes it and so flushes what it
  buffered; an error of that close is reported on standard error and otherwise ignored.
\<close>

definition referenced :: "'v world \<Rightarrow> nat \<Rightarrow> bool" where
  "referenced w fid \<longleftrightarrow>
     fid \<in> set (map (\<lambda>(h, c). file' c) (bars_map w)) \<or>
     fid \<in> set (map (\<lambda>(h, c). writer_file (writer c)) (bars_map w))"

definition release :: "env \<Rightarrow> nat option \<Rightarrow> (unit, 'v) prog" where
  "release env old =
     (case old of
        None \<Rightarrow> ret ()
      | Some fid \<Rightarrow>
          (\<lambda>w. if referenced w fid then (Inr (), w)
                else try_except_pass (file_close env fid) w))"

text \<open>
  \<open>f = ...\<close> followed by \<open>writer = csv.writer(f)\<close> in \<open>setup_streaming\<close>: the two locals are
  bound to the new file object, and the objects they were bound to lose that reference.
\<close>

definition bind_local_f :: "env \<Rightarrow> nat option \<Rightarrow> (unit, 'v) prog" where
  "bind_local_f env new =
     (\<lambda>w. release env (local_f w) (w\<lparr>local_f := new\<rparr>))"

text \<open>\<open>os.makedirs(d, exist_ok=True)\<close>\<close>

definition makedirs :: "env \<Rightarrow> string \<Rightarrow> (unit, 'v) prog" where
  "makedirs env d =
     (\<lambda>w. let w1 = w\<lparr>trace := trace w @ [CallMakedirs d]\<rparr> in
        if makedirs_fails env (clock w) then (Inl OSError, w1)
        else (Inr (), w1\<lparr>dirs := insert d (dirs w)\<rparr>))"

text \<open>\<open>Stock(symbol, 'SMART', 'USD')\<close>\<close>

definition new_Stock :: "env \<Rightarrow> string \<Rightarrow> string \<Rightarrow> string \<Rightarrow> (contract, 'v) prog" where
  "new_Stock env s exch cur =
     (\<lambda>w. if stock_fails env (clock w) s then (Inl ValueError, w)
           else (Inr (Stock s exch cur), w))"

text \<open>
  \<open>ib.reqRealTimeBars(contract, barSize, whatToShow, useRTH)\<close> on the global \<open>ib\<close>:
  \<open>AttributeError\<close> while \<open>ib\<close> is still \<open>None\<close>; otherwise the gateway accepts the request
  and the library returns a new, empty bar list, or the request is rejected.
\<close>

definition reqRealTimeBars ::
    "env \<Rightarrow> contract \<Rightarrow> nat \<Rightarrow> string \<Rightarrow> bool \<Rightarrow> ('v rtbars, 'v) prog" where
  "reqRealTimeBars env c barSize whatToShow useRTH =
     (\<lambda>w. case ib w of
             None \<Rightarrow> (Inl AttributeError, w)
           | Some session \<Rightarrow>
               let w1 = w\<lparr>trace := trace w @ [CallReqRealTimeBars c barSize whatToShow useRTH]\<rparr> in
               (case req_handle env (clock w) (c_symbol c) of
                  None \<Rightarrow> (Inl ApiError, w1)
                | Some h \<Rightarrow>
                    (Inr (RealTimeBarList h []),
                     w1\<lparr>subscriptions := subscriptions w @ [(h, c_symbol c)]\<rparr>)))"

text \<open>\<open>ib = IB()\<close> followed by \<open>ib.connect(HOST, PORT, clientId=CLIENT_ID)\<close>.\<close>

definition new_IB :: "(unit, 'v) prog" where
  "new_IB = (\<lambda>w. (Inr (), w\<lparr>ib := Some (IB False)\<rparr>))"

definition ib_connect :: "env \<Rightarrow> (unit, 'v) prog" where
  "ib_connect env =
     (\<lambda>w. let w1 = w\<lparr>trace := trace w @ [CallConnect]\<rparr> in
        if connect_fails env (clock w) then (Inl OSError, w1)
        else (Inr (), w1\<lparr>ib := Some (IB True)\<rparr>))"

text \<open>\<open>ib.disconnect()\<close>\<close>

definition ib_disconnect :: "env \<Rightarrow> (unit, 'v) prog" where
  "ib_disconnect env =
     (\<lambda>w. let w1 = w\<lparr>trace := trace w @ [CallDisconnect]\<rparr> in
        if disconnect_fails env (clock w) then (Inl ApiError, w1)
        else (Inr (), w1\<lparr>ib := map_option (\<lambda>session. IB False) (ib w)\<rparr>))"

text \<open>\<open>bars_map[bars]\<close>, \<open>bars_map[bars] = c\<close> and \<open>bars[-1]\<close>.\<close>

definition bars_map_getitem :: "'v rtbars \<Rightarrow> (ctx, 'v) prog" where
  "bars_map_getitem bars =
     (\<lambda>w. case map_of (bars_map w) (ident bars) of
             None \<Rightarrow> (Inl KeyError, w)
           | Some c \<Rightarrow> (Inr c, w))"

definition bars_map_setitem :: "'v rtbars \<Rightarrow> ctx \<Rightarrow> (unit, 'v) prog" where
  "bars_map_setitem bars c =
     (\<lambda>w. (Inr (), w\<lparr>bars_map := AList.update (ident bars) c (bars_map w)\<rparr>))"

definition last_item :: "'a list \<Rightarrow> ('a, 'v) prog" where
  "last_item xs = (if xs = [] then raise IndexError else ret (last xs))"

section \<open>The program\<close>

text \<open>The fixed list of tickers.\<close>

definition TICKERS :: "string list" where
  "TICKERS =
    [''SPY'', ''QQQ'', ''IWM'',
     ''AEM'', ''AEP'', ''AGI'', ''AMAT'', ''AMD'', ''AMT'', ''AMZN'', ''ANET'',
     ''APH'', ''APP'', ''ATI'', ''AVGO'', ''AXP'', ''CCJ'', ''CDNS'', ''CEG'',
     ''CELH'', ''CL'', ''CLS'', ''CME'', ''CNM'', ''CNP'', ''COST'', ''CP'',
     ''CRBG'', ''D'', ''DOCS'', ''DXCM'', ''ETN'', ''EXPE'', ''FAST'', ''FLEX'',
     ''FTNT'', ''GEN'', ''HLT'', ''HON'', ''HPE'', ''HWM'', ''IBKR'', ''ICE'',
     ''KDP'', ''KMI'', ''KO'', ''LIN'', ''LNT'', ''LRCX'', ''MA'', ''MDLZ'',
     ''MDT'', ''META'', ''MNST'', ''MPC'', ''MSFT'', ''NDAQ'', ''NEE'', ''NFLX'',
     ''NI'', ''NKE'', ''NTNX'', ''NUE'', ''NVDA'', ''NVT'', ''NWSA'', ''NXPI'',
     ''ORLY'', ''OTIS'', ''QSR'', ''RCL'', ''ROL'', ''SCHW'', ''SFM'', ''SGI'',
     ''SMCI'', ''TJX'', ''TME'', ''TPR'', ''TSCO'', ''UNP'', ''USFD'', ''V'',
     ''VLO'', ''VST'', ''WEC'', ''WMB'', ''WPM'', ''WYNN'', ''YUM'',
     ''TSLA'', ''AAPL'']"

definition header :: "'v row" where
  "header = [Txt ''timestamp'', Txt ''open'', Txt ''high'', Txt ''low'', Txt ''close'',
             Txt ''volume'']"

definition csv_path :: "env \<Rightarrow> string \<Rightarrow> string" where
  "csv_path env s = path_join (OUTPUT_DIR env) (s @ ''.csv'')"

subsection \<open>\<open>connect_to_ib\<close> and \<open>setup_output_directory\<close>\<close>

definition connect_to_ib :: "env \<Rightarrow> (bool, 'v) prog" where
  "connect_to_ib env =
     try_except_Exception
       (bind new_IB (\<lambda>_.
        bind (ib_connect env) (\<lambda>_.
        bind (print env Connected) (\<lambda>_.
        ret True))))
       (\<lambda>e. bind (print env (ConnectFailed e)) (\<lambda>_. ret False))"

definition setup_output_directory :: "env \<Rightarrow> (bool, 'v) prog" where
  "setup_output_directory env =
     try_except_Exception
       (bind (makedirs env (OUTPUT_DIR env)) (\<lambda>_.
        bind (print env (OutputDirectory (OUTPUT_DIR env))) (\<lambda>_.
        ret True)))
       (\<lambda>e. bind (print env (MakedirsFailed e)) (\<lambda>_. ret False))"

subsection \<open>\<open>setup_streaming\<close>\<close>

text \<open>The body of the \<open>try\<close> in the loop of \<open>setup_streaming\<close>, for one symbol.\<close>

definition setup_symbol_body :: "env \<Rightarrow> string \<Rightarrow> (unit, 'v) prog" where
  "setup_symbol_body env s =
     bind (new_Stock env s ''SMART'' ''USD'') (\<lambda>contract.
     bind (file_open env (csv_path env s)) (\<lambda>f.
     bind (bind_local_f env (Some f)) (\<lambda>_.
     let wr = CsvWriter f in
     bind (file_tell f) (\<lambda>pos.
     bind (if pos = 0 then writerow env wr header else ret ()) (\<lambda>_.
     bind (reqRealTimeBars env contract 5 ''TRADES'' False) (\<lambda>bars.
     bind (bars_map_setitem bars \<lparr>symbol = s, writer = wr, file' = f\<rparr>) (\<lambda>_.
     print env (SetupOk s))))))))"

text \<open>One iteration of the loop: the \<open>try\<close> with its \<open>except Exception\<close>.\<close>

definition setup_symbol :: "env \<Rightarrow> string \<Rightarrow> (unit, 'v) prog" where
  "setup_symbol env s =
     try_except_Exception (setup_symbol_body env s) (\<lambda>e. print env (SetupFailed s e))"

fun setup_loop :: "env \<Rightarrow> string list \<Rightarrow> (unit, 'v) prog" where
  "setup_loop env [] = ret ()"
| "setup_loop env (s # ss) = bind (setup_symbol env s) (\<lambda>_. setup_loop env ss)"

text \<open>
  The function starts with its locals unbound; when it returns, its frame is dropped and
  the file object the locals were last bound to loses that reference. When an exception
  leaves it, the frame stays alive with the traceback.
\<close>

definition setup_streaming :: "env \<Rightarrow> (unit, 'v) prog" where
  "setup_streaming env =
     bind (\<lambda>w. (Inr (), w\<lparr>local_f := None\<rparr>)) (\<lambda>_.
     bind (print env (SettingUp (length TICKERS))) (\<lambda>_.
     bind (setup_loop env TICKERS) (\<lambda>_.
     bind_local_f env None)))"

subsection \<open>\<open>on_bar\<close>\<close>

definition bar_row :: "'v bar \<Rightarrow> 'v row" where
  "bar_row b = [Val (time b), Val (open' b), Val (high b), Val (low b), Val (close b),
                Val (volume b)]"

text \<open>The body of the \<open>try\<close> in \<open>on_bar\<close>.\<close>

definition on_bar_body :: "env \<Rightarrow> 'v rtbars \<Rightarrow> (unit, 'v) prog" where
  "on_bar_body env bars =
     bind (bars_map_getitem bars) (\<lambda>c.
     bind (last_item (items bars)) (\<lambda>b.
     bind (writerow env (writer c) (bar_row b)) (\<lambda>_.
     file_flush env (file' c))))"

definition on_bar :: "env \<Rightarrow> 'v rtbars \<Rightarrow> bool \<Rightarrow> (unit, 'v) prog" where
  "on_bar env bars hasNewBar =
     (if \<not> hasNewBar then ret ()
      else try_except_Exception (on_bar_body env bars) (\<lambda>e. print env (BarError e)))"

subsection \<open>\<open>register_callbacks\<close>\<close>

text \<open>\<open>bars.updateEvent += on_bar\<close> for the handle \<open>h\<close>.\<close>

definition attach_on_bar :: "nat \<Rightarrow> (unit, 'v) prog" where
  "attach_on_bar h = (\<lambda>w. (Inr (), w\<lparr>callbacks := callbacks w @ [h]\<rparr>))"

fun register_loop :: "nat list \<Rightarrow> (unit, 'v) prog" where
  "register_loop [] = ret ()"
| "register_loop (h # hs) = bind (attach_on_bar h) (\<lambda>_. register_loop hs)"

definition register_callbacks :: "(unit, 'v) prog" where
  "register_callbacks = bind (gets bars_map) (\<lambda>bm. register_loop (map fst bm))"

subsection \<open>\<open>shutdown\<close>\<close>

text \<open>
  The loop over \<open>bars_map.values()\<close> with its \<open>try: ctx['file'].close() except: pass\<close>, then
  the handler itself. An \<open>IB\<close> object is always truthy, so \<open>if ib:\<close> asks whether \<open>ib\<close> is
  still \<open>None\<close>. \<open>sys.exit(0)\<close> raises \<open>SystemExit(0)\<close>.
\<close>

fun close_loop :: "env \<Rightarrow> ctx list \<Rightarrow> (unit, 'v) prog" where
  "close_loop env [] = ret ()"
| "close_loop env (c # cs) =
     bind (try_except_pass (file_close env (file' c))) (\<lambda>_. close_loop env cs)"

definition shutdown :: "env \<Rightarrow> signum \<Rightarrow> (unit, 'v) prog" where
  "shutdown env signal_num =
     bind (print env (ReceivedSignal signal_num)) (\<lambda>_.
     bind (gets bars_map) (\<lambda>bm.
     bind (close_loop env (map snd bm)) (\<lambda>_.
     bind (gets ib) (\<lambda>session.
     bind (if session \<noteq> None then try_except_pass (ib_disconnect env) else ret ()) (\<lambda>_.
     bind (print env ShutdownComplete) (\<lambda>_.
     sys_exit 0))))))"

subsection \<open>\<open>main\<close>\<close>

text \<open>
  What the event loop \<open>ib.run()\<close> delivers while it blocks: a bar update of a subscription
  (the handler runs if it was attached to that handle), a signal (the handler installed
  by \<open>main\<close> runs), or an exception raised by the loop itself. When nothing is left the loop
  returns.
\<close>

text \<open>
  \<open>signal.signal(sig, shutdown)\<close> is recorded as the event \<open>CallSignal sig\<close>; signals reach
  the program only while the loop runs.
\<close>

datatype 'v loop_event = BarUpdate "'v rtbars" bool | Signal signum | LoopRaises exn

fun ib_run :: "env \<Rightarrow> 'v loop_event list \<Rightarrow> (unit, 'v) prog" where
  "ib_run env [] = ret ()"
| "ib_run env (BarUpdate bars hasNewBar # evs) =
     bind (gets callbacks) (\<lambda>attached.
     bind (if ident bars \<in> set attached then on_bar env bars hasNewBar else ret ()) (\<lambda>_.
     ib_run env evs))"
| "ib_run env (Signal s # evs) = bind (shutdown env s) (\<lambda>_. ib_run env evs)"
| "ib_run env (LoopRaises e # evs) = raise e"

definition main :: "env \<Rightarrow> 'v loop_event list \<Rightarrow> (unit, 'v) prog" where
  "main env evs =
     bind (print env Banner) (\<lambda>_.
     bind (emit (CallSignal SIGINT)) (\<lambda>_.
     bind (emit (CallSignal SIGTERM)) (\<lambda>_.
     bind (connect_to_ib env) (\<lambda>ok.
     bind (if \<not> ok then sys_exit 1 else ret ()) (\<lambda>_.
     bind (setup_output_directory env) (\<lambda>ok.
     bind (if \<not> ok then sys_exit 1 else ret ()) (\<lambda>_.
     bind (setup_streaming env) (\<lambda>_.
     bind (gets bars_map) (\<lambda>bm.
     bind (if bm = [] then bind (print env NoSetups) (\<lambda>_. sys_exit 1) else ret ()) (\<lambda>_.
     bind register_callbacks (\<lambda>_.
     bind (gets bars_map) (\<lambda>bm.
     bind (print env (Streaming (length bm))) (\<lambda>_.
     try_except_KeyboardInterrupt_Exception (ib_run env evs)
       (shutdown env SIGINT)
       (\<lambda>e. bind (print env (Unexpected e)) (\<lambda>_. shutdown env SIGTERM)))))))))))))))"

text \<open>
  The exit status of the process from the way \<open>main\<close> (or a signal handler) ends and the
  world it leaves. The interpreter takes 0 when \<open>main\<close> returns, the code of a
  \<open>SystemExit\<close>, 130 for an interrupt that nothing caught and 1 for any other exception;
  it then flushes standard output, and when that flush fails the status is 120 instead.
\<close>

fun exit_code :: "(exn + unit) \<Rightarrow> int" where
  "exit_code (Inr u) = 0"
| "exit_code (Inl (SystemExit n)) = n"
| "exit_code (Inl KeyboardInterrupt) = 130"
| "exit_code (Inl e) = 1"

definition exit_status :: "env \<Rightarrow> (exn + unit) \<times> 'v world \<Rightarrow> int" where
  "exit_status env rw =
     (if final_flush_fails env (clock (snd rw)) then 120 else exit_code (fst rw))"

section \<open>Notions used in the statements\<close>


text \<open>Standard output takes every message: no \<open>print\<close> raises.\<close>

definition stdout_works :: "env \<Rightarrow> bool" where
  "stdout_works env \<longleftrightarrow> (\<forall>t m. print_raises env t m = None)"

text \<open>The file object exists and has been closed.\<close>

definition is_closed :: "'v world \<Rightarrow> nat \<Rightarrow> bool" where
  "is_closed w fid = (case get_file w fid of None \<Rightarrow> False | Some f \<Rightarrow> f_closed f)"


text \<open>
  The symbol a printed line reports on: each symbol of the loop of \<open>setup_streaming\<close> is
  reported exactly once, as set up or as failed.
\<close>

fun setup_report :: "'v event \<Rightarrow> string option" where
  "setup_report (Print (SetupOk s)) = Some s"
| "setup_report (Print (SetupFailed s e)) = Some s"
| "setup_report ev = None"

text \<open>
  The state of \<open>bars_map\<close> that the loop of \<open>setup_streaming\<close> maintains: its entries are,
  in order, the subscriptions the gateway accepted; handles, symbols and file objects are
  each pairwise distinct; and every entry holds a writer on its own file, which is open
  and appends to the CSV file of the entry's symbol.
\<close>

definition entries_ok :: "env \<Rightarrow> 'v world \<Rightarrow> bool" where
  "entries_ok env w \<longleftrightarrow>
     map (\<lambda>(h, c). (h, symbol c)) (bars_map w) = subscriptions w \<and>
     distinct (map fst (bars_map w)) \<and>
     distinct (map (\<lambda>(h, c). symbol c) (bars_map w)) \<and>
     distinct (map (\<lambda>(h, c). file' c) (bars_map w)) \<and>
     (\<forall>(h, c) \<in> set (bars_map w).
        writer c = CsvWriter (file' c) \<and>
        (\<exists>t. req_handle env t (symbol c) = Some h) \<and>
        (\<exists>f. get_file w (file' c) = Some f \<and> f_path f = csv_path env (symbol c) \<and>
             \<not> f_closed f))"

text \<open>
  The client library returns a new bar list for every request, so that the handles of two
  different symbols are never the same.
\<close>

definition handles_fresh :: "env \<Rightarrow> bool" where
  "handles_fresh env \<longleftrightarrow>
     (\<forall>t t' s s' h. req_handle env t s = Some h \<and> req_handle env t' s' = Some h \<longrightarrow> s = s')"

text \<open>
  The first lines of \<open>main\<close>: the banner and the registration of \<open>shutdown\<close> for the two
  signals.
\<close>

definition main_prologue :: "env \<Rightarrow> (unit, 'v) prog" where
  "main_prologue env =
     bind (print env Banner) (\<lambda>_.
     bind (emit (CallSignal SIGINT)) (\<lambda>_.
     emit (CallSignal SIGTERM)))"

text \<open>
  The world in which \<open>main\<close> calls \<open>setup_streaming\<close>, once the connection and the output
  directory have succeeded.
\<close>

definition after_startup :: "env \<Rightarrow> 'v world \<Rightarrow> 'v world" where
  "after_startup env w =
     snd (setup_output_directory env (snd (connect_to_ib env (snd (main_prologue env w)))))"

text \<open>The world in which \<open>main\<close> enters the event loop.\<close>

definition before_loop :: "env \<Rightarrow> 'v world \<Rightarrow> 'v world" where
  "before_loop env w =
     (let w3 = snd (setup_streaming env (after_startup env w));
          w4 = snd (register_callbacks w3)
      in snd (print env (Streaming (length (bars_map w4))) w4))"

section \<open>Concrete environments and worlds\<close>

text \<open>
  An environment in which nothing fails and the gateway accepts the subscriptions for SPY
  and QQQ only.
\<close>

definition example_env :: env where
  "example_env =
     \<lparr>OUTPUT_DIR = ''ibkr_candles'',
      connect_fails = (\<lambda>t. False),
      makedirs_fails = (\<lambda>t. False),
      stock_fails = (\<lambda>t s. False),
      open_fails = (\<lambda>t p. False),
      flush_fails = (\<lambda>t p. False),
      close_fails = (\<lambda>t p. False),
      req_handle = (\<lambda>t s. if s = ''SPY'' then Some 1 else if s = ''QQQ'' then Some 2 else None),
      disconnect_fails = (\<lambda>t. False),
      print_raises = (\<lambda>t m. None),
      final_flush_fails = (\<lambda>t. False)\<rparr>"

text \<open>With every flush of the SPY file failing and nothing else.\<close>

definition example_env_SPY_fails :: env where
  "example_env_SPY_fails = example_env\<lparr>flush_fails := (\<lambda>t p. p = ''ibkr_candles/SPY.csv'')\<rparr>"

text \<open>
  With a full disk that also holds standard output: no flush succeeds, no \<open>print\<close>
  succeeds, and the flush of standard output at the end of the process fails.
\<close>

definition example_env_disk_full :: env where
  "example_env_disk_full =
     example_env\<lparr>flush_fails := (\<lambda>t p. True), print_raises := (\<lambda>t m. Some Unwritable),
                 final_flush_fails := (\<lambda>t. True)\<rparr>"

text \<open>
  With a standard output that buffers every message and fails only when the interpreter
  flushes it at the end of the process.
\<close>

definition example_env_stdout_lost :: env where
  "example_env_stdout_lost = example_env\<lparr>final_flush_fails := (\<lambda>t. True)\<rparr>"

text \<open>
  With a standard output that cannot encode the check mark and the cross of the two
  messages of \<open>setup_streaming\<close>.
\<close>

definition example_env_not_utf8 :: env where
  "example_env_not_utf8 =
     example_env\<lparr>print_raises :=
       (\<lambda>t m. case m of SetupOk s \<Rightarrow> Some Unencodable
                      | SetupFailed s e \<Rightarrow> Some Unencodable
                      | _ \<Rightarrow> None)\<rparr>"

text \<open>With every \<open>close\<close> and the \<open>disconnect\<close> failing.\<close>

definition example_env_close_fails :: env where
  "example_env_close_fails =
     example_env\<lparr>close_fails := (\<lambda>t p. True), disconnect_fails := (\<lambda>t. True)\<rparr>"

text \<open>With a gateway that cannot be reached.\<close>

definition example_env_unreachable :: env where
  "example_env_unreachable = example_env\<lparr>connect_fails := (\<lambda>t. True)\<rparr>"

text \<open>With a gateway that rejects every subscription.\<close>

definition example_env_all_rejected :: env where
  "example_env_all_rejected = example_env\<lparr>req_handle := (\<lambda>t s. None)\<rparr>"

text \<open>The world when the module has just been loaded, on an empty disk.\<close>

definition initial_world :: "nat world" where
  "initial_world =
     \<lparr>disk = Map.empty, dirs = {}, files = [], ib = None, bars_map = [], local_f = None,
      subscriptions = [], callbacks = [], trace = []\<rparr>"

text \<open>The world after a successful \<open>connect_to_ib\<close> and \<open>setup_output_directory\<close>.\<close>

definition connected_world :: "nat world" where
  "connected_world = initial_world\<lparr>dirs := {''ibkr_candles''}, ib := Some (IB True)\<rparr>"

text \<open>A world in the middle of streaming SPY and QQQ, and bars that arrive in it.\<close>

definition example_world :: "nat world" where
  "example_world =
     \<lparr>disk = [''ibkr_candles/SPY.csv'' \<mapsto> [header], ''ibkr_candles/QQQ.csv'' \<mapsto> [header]],
      dirs = {''ibkr_candles''},
      files = [\<lparr>f_path = ''ibkr_candles/SPY.csv'', f_pos = 1, f_buffer = [], f_closed = False\<rparr>,
               \<lparr>f_path = ''ibkr_candles/QQQ.csv'', f_pos = 1, f_buffer = [], f_closed = False\<rparr>],
      ib = Some (IB True),
      bars_map = [(1, \<lparr>symbol = ''SPY'', writer = CsvWriter 0, file' = 0\<rparr>),
                  (2, \<lparr>symbol = ''QQQ'', writer = CsvWriter 1, file' = 1\<rparr>)],
      local_f = None,
      subscriptions = [(1, ''SPY''), (2, ''QQQ'')],
      callbacks = [1, 2],
      trace = []\<rparr>"

definition example_bar :: "nat bar" where
  "example_bar = \<lparr>time = 1000, open' = 10, high = 12, low = 9, close = 11, volume = 500\<rparr>"

definition example_bars :: "nat rtbars" where
  "example_bars = RealTimeBarList 1 [example_bar]"

definition example_bars_QQQ :: "nat rtbars" where
  "example_bars_QQQ = RealTimeBarList 2 [example_bar\<lparr>close := 12\<rparr>]"


section \<open>Reasoning about computations\<close>

lemma distinct_TICKERS: "distinct TICKERS"
  unfolding TICKERS_def by code_simp

text \<open>A property of the world that a computation never destroys, however it ends.\<close>

definition invariant :: "('v world \<Rightarrow> bool) \<Rightarrow> ('a, 'v) prog \<Rightarrow> bool" where
  "invariant P m \<longleftrightarrow> (\<forall>w. P w \<longrightarrow> P (snd (m w)))"

lemma invariantD: "invariant P m \<Longrightarrow> P w \<Longrightarrow> P (snd (m w))"
  by (simp add: invariant_def)

lemma invariant_ret [intro!]: "invariant P (ret x)"
  by (simp add: invariant_def ret_def)

lemma invariant_raise [intro!]: "invariant P (raise e)"
  by (simp add: invariant_def raise_def)

lemma invariant_sys_exit [intro!]: "invariant P (sys_exit n)"
  by (simp add: sys_exit_def invariant_raise)

lemma invariant_bind [intro!]:
  assumes m: "invariant P m" and g: "\<And>x. invariant P (g x)"
  shows "invariant P (bind m g)"
  unfolding invariant_def
proof (intro allI impI)
  fix w
  assume "P w"
  then have P': "P (snd (m w))" by (rule invariantD [OF m])
  show "P (snd (bind m g w))"
  proof (cases "m w")
    case (Pair r w')
    with P' have w': "P w'" by simp
    show ?thesis
    proof (cases r)
      case (Inl e)
      with Pair w' show ?thesis by (simp add: bind_def)
    next
      case (Inr x)
      with Pair invariantD [OF g w', of x] show ?thesis by (simp add: bind_def)
    qed
  qed
qed

lemma invariant_try_except_Exception [intro!]:
  assumes m: "invariant P m" and h: "\<And>e. invariant P (h e)"
  shows "invariant P (try_except_Exception m h)"
  unfolding invariant_def
proof (intro allI impI)
  fix w
  assume "P w"
  then have P': "P (snd (m w))" by (rule invariantD [OF m])
  show "P (snd (try_except_Exception m h w))"
  proof (cases "m w")
    case (Pair r w')
    with P' have w': "P w'" by simp
    show ?thesis
    proof (cases r)
      case (Inl e)
      with Pair w' invariantD [OF h w', of e] show ?thesis
        by (simp add: try_except_Exception_def)
    next
      case (Inr x)
      with Pair w' show ?thesis by (simp add: try_except_Exception_def)
    qed
  qed
qed

lemma invariant_try_except_pass [intro!]:
  assumes m: "invariant P m"
  shows "invariant P (try_except_pass m)"
  unfolding invariant_def
proof (intro allI impI)
  fix w
  assume "P w"
  then have "P (snd (m w))" by (rule invariantD [OF m])
  then show "P (snd (try_except_pass m w))"
    by (cases "m w") (auto simp: try_except_pass_def split: sum.splits)
qed

lemma invariant_gets [intro!]: "invariant P (gets f)"
  by (simp add: invariant_def gets_def)

lemma invariant_if [intro!]:
  "invariant P m \<Longrightarrow> invariant P n \<Longrightarrow> invariant P (if b then m else n)"
  by simp

lemma invariant_bars_map_getitem [intro!]: "invariant P (bars_map_getitem bars)"
  by (simp add: invariant_def bars_map_getitem_def split: option.splits)

lemma invariant_last_item [intro!]: "invariant P (last_item xs)"
  by (auto simp: last_item_def)

lemma invariant_file_tell [intro!]: "invariant P (file_tell fid)"
  by (simp add: invariant_def file_tell_def split: option.splits)

lemma invariant_new_Stock [intro!]: "invariant P (new_Stock env s exch cur)"
  by (simp add: invariant_def new_Stock_def)

subsection \<open>What leaves \<open>bars_map\<close> alone\<close>

lemma bars_map_emit [intro!]: "invariant (\<lambda>w. bars_map w = bm) (emit ev)"
  by (simp add: invariant_def emit_def)

lemma bars_map_print [intro!]: "invariant (\<lambda>w. bars_map w = bm) (print env m)"
  by (simp add: invariant_def print_def split: option.splits)

lemma bars_map_writerow [intro!]: "invariant (\<lambda>w. bars_map w = bm) (writerow env wr row)"
  by (simp add: invariant_def writerow_def Let_def split: option.splits)

lemma bars_map_file_flush [intro!]: "invariant (\<lambda>w. bars_map w = bm) (file_flush env fid)"
  by (simp add: invariant_def file_flush_def Let_def split: option.splits)

lemma bars_map_file_close [intro!]: "invariant (\<lambda>w. bars_map w = bm) (file_close env fid)"
  by (simp add: invariant_def file_close_def Let_def split: option.splits)

lemma bars_map_ib_disconnect [intro!]: "invariant (\<lambda>w. bars_map w = bm) (ib_disconnect env)"
  by (simp add: invariant_def ib_disconnect_def Let_def)

lemma bars_map_ib_connect [intro!]: "invariant (\<lambda>w. bars_map w = bm) (ib_connect env)"
  by (simp add: invariant_def ib_connect_def Let_def)

lemma bars_map_new_IB [intro!]: "invariant (\<lambda>w. bars_map w = bm) new_IB"
  by (simp add: invariant_def new_IB_def)

lemma bars_map_makedirs [intro!]: "invariant (\<lambda>w. bars_map w = bm) (makedirs env d)"
  by (simp add: invariant_def makedirs_def Let_def)

lemma bars_map_on_bar: "invariant (\<lambda>w. bars_map w = bm) (on_bar env bars b)"
  unfolding on_bar_def on_bar_body_def by auto

lemma bars_map_close_loop [intro!]: "invariant (\<lambda>w. bars_map w = bm) (close_loop env cs)"
  by (induction cs) auto

lemma bars_map_shutdown: "invariant (\<lambda>w. bars_map w = bm) (shutdown env n)"
  unfolding shutdown_def by auto

lemma bars_map_connect_to_ib: "invariant (\<lambda>w. bars_map w = bm) (connect_to_ib env)"
  unfolding connect_to_ib_def by auto

lemma bars_map_setup_output_directory:
  "invariant (\<lambda>w. bars_map w = bm) (setup_output_directory env)"
  unfolding setup_output_directory_def by auto

lemma bars_map_attach_on_bar [intro!]: "invariant (\<lambda>w. bars_map w = bm) (attach_on_bar h)"
  by (simp add: invariant_def attach_on_bar_def)

lemma bars_map_register_loop: "invariant (\<lambda>w. bars_map w = bm) (register_loop hs)"
  by (induction hs) auto

lemma bars_map_register_callbacks: "invariant (\<lambda>w. bars_map w = bm) register_callbacks"
  unfolding register_callbacks_def by (intro invariant_bind invariant_gets bars_map_register_loop)

section \<open>The bar handler without a new bar\<close>

text \<open>
  Claim C2. Called with \<open>hasNewBar = False\<close>, \<open>on_bar\<close> returns normally and leaves the
  whole world as it was: no row is written, no file or file object changes, \<open>bars_map\<close> is
  untouched and nothing is printed or called.
\<close>

theorem on_bar_no_new_bar: "on_bar env bars False w = (Inr (), w)"
  by (simp add: on_bar_def ret_def)

section \<open>Who changes \<open>bars_map\<close>\<close>

text \<open>
  Claim C10. Neither \<open>on_bar\<close> (whatever the flag) nor \<open>shutdown\<close> changes \<open>bars_map\<close>: the
  dictionary after the call is the dictionary before it, entry for entry. The same holds
  for \<open>connect_to_ib\<close>, \<open>setup_output_directory\<close> and \<open>register_callbacks\<close>, so that
  \<open>setup_streaming\<close> is the only function that writes to it.
\<close>

theorem handlers_keep_bars_map:
  "bars_map (snd (on_bar env bars hasNewBar w)) = bars_map w \<and>
   bars_map (snd (shutdown env signal_num w)) = bars_map w \<and>
   bars_map (snd (connect_to_ib env w)) = bars_map w \<and>
   bars_map (snd (setup_output_directory env w)) = bars_map w \<and>
   bars_map (snd (register_callbacks w)) = bars_map w"
  using invariantD [OF bars_map_on_bar, of w "bars_map w" env bars hasNewBar]
    invariantD [OF bars_map_shutdown, of w "bars_map w" env signal_num]
    invariantD [OF bars_map_connect_to_ib, of w "bars_map w" env]
    invariantD [OF bars_map_setup_output_directory, of w "bars_map w" env]
    invariantD [OF bars_map_register_callbacks, of w "bars_map w"]
  by simp

section \<open>The bar handler with a new bar\<close>

lemmas example_defs = example_env_def example_world_def example_bar_def example_bars_def







section \<open>Errors inside the bar handler\<close>

lemma on_bar_body_raises_Exception:
  "fst (on_bar_body env bars w) = Inl e \<Longrightarrow> is_Exception e"
  by (auto simp: on_bar_body_def bind_def bars_map_getitem_def last_item_def raise_def ret_def
      writerow_def file_flush_def Let_def split: prod.splits sum.splits option.splits if_splits)

lemma on_bar_unfold:
  "on_bar env bars True w =
     (case on_bar_body env bars w of
        (Inl e, w') \<Rightarrow> print env (BarError e) w'
      | (Inr u, w') \<Rightarrow> (Inr u, w'))"
proof (cases "on_bar_body env bars w")
  case (Pair r w')
  show ?thesis
  proof (cases r)
    case (Inl e)
    with Pair have "is_Exception e"
      using on_bar_body_raises_Exception [of env bars w e] by simp
    with Pair Inl show ?thesis by (simp add: on_bar_def try_except_Exception_def)
  next
    case (Inr u)
    with Pair show ?thesis by (simp add: on_bar_def try_except_Exception_def)
  qed
qed

lemma on_bar_never_raises:
  assumes "\<forall>t e. print_raises env t (BarError e) = None"
  shows "fst (on_bar env bars hasNewBar w) = Inr ()"
proof (cases hasNewBar)
  case False
  then show ?thesis by (simp add: on_bar_def ret_def)
next
  case True
  have "fst (on_bar env bars True w) = Inr ()"
    using assms
    by (auto simp: on_bar_unfold print_def split: prod.splits sum.splits)
  with True show ?thesis by simp
qed

lemma on_bar_logs_error:
  assumes "fst (on_bar_body env bars w) = Inl e"
  shows "trace (snd (on_bar env bars True w)) =
     trace (snd (on_bar_body env bars w)) @
       [if print_raises env (clock (snd (on_bar_body env bars w))) (BarError e) = None
        then Print (BarError e) else PrintFailed (BarError e)]"
  using assms unfolding on_bar_unfold
  by (cases "on_bar_body env bars w") (auto simp: print_def split: option.splits)

lemma on_bar_raises_from_print:
  assumes "fst (on_bar env bars hasNewBar w) = Inl x"
  shows "\<exists>e err. fst (on_bar_body env bars w) = Inl e \<and>
     print_raises env (clock (snd (on_bar_body env bars w))) (BarError e) = Some err \<and>
     x = stdout_exn err"
proof (cases hasNewBar)
  case False
  with assms show ?thesis by (simp add: on_bar_def ret_def)
next
  case True
  from assms True have "fst (on_bar env bars True w) = Inl x" by simp
  then show ?thesis
    by (cases "on_bar_body env bars w")
       (auto simp: on_bar_unfold print_def split: sum.splits option.splits)
qed

lemma writerow_disk: "disk (snd (writerow env wr row w)) = disk w"
  by (simp add: writerow_def Let_def split: option.splits)

lemma writerow_path:
  "map_option f_path (get_file (snd (writerow env wr row w)) fid) =
   map_option f_path (get_file w fid)"
  by (simp add: writerow_def Let_def get_file_def nth_list_update split: option.splits)

lemma file_flush_disk_other:
  assumes "\<And>f. get_file w fid = Some f \<Longrightarrow> p \<noteq> f_path f"
  shows "disk (snd (file_flush env fid w)) p = disk w p"
  using assms by (simp add: file_flush_def Let_def split: option.splits)

lemma on_bar_body_other_paths:
  assumes "\<And>c f. map_of (bars_map w) (ident bars) = Some c \<Longrightarrow>
             get_file w (file' c) = Some f \<Longrightarrow> p \<noteq> f_path f"
  shows "disk (snd (on_bar_body env bars w)) p = disk w p"
proof (cases "map_of (bars_map w) (ident bars)")
  case None
  then show ?thesis by (simp add: on_bar_body_def bind_def bars_map_getitem_def)
next
  case (Some c)
  show ?thesis
  proof (cases "items bars = []")
    case True
    with Some show ?thesis
      by (simp add: on_bar_body_def bind_def bars_map_getitem_def last_item_def raise_def)
  next
    case False
    let ?w1 = "snd (writerow env (writer c) (bar_row (last (items bars))) w)"
    have d1: "disk ?w1 = disk w" by (rule writerow_disk)
    have "\<And>f. get_file ?w1 (file' c) = Some f \<Longrightarrow> p \<noteq> f_path f"
    proof -
      fix f assume f: "get_file ?w1 (file' c) = Some f"
      with writerow_path [of env "writer c" "bar_row (last (items bars))" w "file' c"]
      obtain f0 where "get_file w (file' c) = Some f0" "f_path f0 = f_path f"
        by (cases "get_file w (file' c)") auto
      with assms [OF Some, of f0] show "p \<noteq> f_path f" by simp
    qed
    then have "disk (snd (file_flush env (file' c) ?w1)) p = disk ?w1 p"
      by (rule file_flush_disk_other)
    with d1 Some False show ?thesis
      by (cases "writerow env (writer c) (bar_row (last (items bars))) w")
         (auto simp: on_bar_body_def bind_def bars_map_getitem_def last_item_def ret_def
           split: sum.splits)
  qed
qed

lemma print_get_file: "get_file (snd (print env m w)) fid = get_file w fid"
  by (simp add: print_def get_file_def split: option.splits)

lemma print_disk: "disk (snd (print env m w)) = disk w"
  by (simp add: print_def split: option.splits)

lemma on_bar_frame:
  assumes body: "g (snd (on_bar_body env bars w)) = g w"
    and pr: "\<And>m w'. g (snd (print env m w')) = g w'"
  shows "g (snd (on_bar env bars hasNewBar w)) = g w"
proof (cases hasNewBar)
  case False
  then show ?thesis by (simp add: on_bar_def ret_def)
next
  case True
  obtain r w' where b: "on_bar_body env bars w = (r, w')"
    by (cases "on_bar_body env bars w")
  have "g (snd (on_bar env bars True w)) = g w'"
    unfolding on_bar_unfold b by (cases r) (simp_all add: pr)
  with body b True show ?thesis by simp
qed

lemma writerow_get_file_other:
  "fid \<noteq> writer_file wr \<Longrightarrow>
   get_file (snd (writerow env wr row w)) fid = get_file w fid"
  by (simp add: writerow_def Let_def get_file_def split: option.splits)

lemma file_flush_get_file_other:
  "fid \<noteq> fid' \<Longrightarrow> get_file (snd (file_flush env fid' w)) fid = get_file w fid"
  by (simp add: file_flush_def Let_def get_file_def split: option.splits)

lemma on_bar_body_other_files:
  assumes "\<And>c. map_of (bars_map w) (ident bars) = Some c \<Longrightarrow>
             fid \<noteq> file' c \<and> fid \<noteq> writer_file (writer c)"
  shows "get_file (snd (on_bar_body env bars w)) fid = get_file w fid"
proof (cases "map_of (bars_map w) (ident bars)")
  case None
  then show ?thesis by (simp add: on_bar_body_def bind_def bars_map_getitem_def)
next
  case (Some c)
  note ne = assms [OF Some]
  show ?thesis
  proof (cases "items bars = []")
    case True
    with Some show ?thesis
      by (simp add: on_bar_body_def bind_def bars_map_getitem_def last_item_def raise_def)
  next
    case False
    let ?w1 = "snd (writerow env (writer c) (bar_row (last (items bars))) w)"
    have g1: "get_file ?w1 fid = get_file w fid"
      using ne by (simp add: writerow_get_file_other)
    have "get_file (snd (file_flush env (file' c) ?w1)) fid = get_file ?w1 fid"
      using ne by (simp add: file_flush_get_file_other)
    with g1 Some False show ?thesis
      by (cases "writerow env (writer c) (bar_row (last (items bars))) w")
         (auto simp: on_bar_body_def bind_def bars_map_getitem_def last_item_def ret_def
           split: sum.splits)
  qed
qed

lemma on_bar_other_files:
  assumes "\<And>c. map_of (bars_map w) (ident bars) = Some c \<Longrightarrow>
             fid \<noteq> file' c \<and> fid \<noteq> writer_file (writer c)"
  shows "get_file (snd (on_bar env bars hasNewBar w)) fid = get_file w fid"
proof (rule on_bar_frame [where g = "\<lambda>w. get_file w fid"])
  show "get_file (snd (on_bar_body env bars w)) fid = get_file w fid"
    by (rule on_bar_body_other_files) (erule assms)
qed (rule print_get_file)

lemma on_bar_other_paths:
  assumes "\<And>c f. map_of (bars_map w) (ident bars) = Some c \<Longrightarrow>
             get_file w (file' c) = Some f \<Longrightarrow> p \<noteq> f_path f"
  shows "disk (snd (on_bar env bars hasNewBar w)) p = disk w p"
proof (rule on_bar_frame [where g = "\<lambda>w. disk w p"])
  show "disk (snd (on_bar_body env bars w)) p = disk w p"
    by (rule on_bar_body_other_paths) (erule (1) assms)
qed (simp add: print_disk)



text \<open>
  Claim C3, as amended. An error raised inside \<open>on_bar\<close> by the lookup of the handle, by
  taking the last bar, by the write or by the flush is caught, and the handler prints it
  after the calls already made. If that message can be printed, \<open>on_bar\<close> returns normally;
  an exception leaves \<open>on_bar\<close> only when the print of the message itself raises, and it is
  then the exception of the print. In every case the call leaves \<open>bars_map\<close> as it was,
  changes no file object other than the one of the handled entry (its file and the file
  of its writer), and changes no file on disk other than the one that file object appends
  to: the resources of every other symbol are as before.
\<close>

theorem on_bar_contains_errors:
  "((\<forall>t e. print_raises env t (BarError e) = None) \<longrightarrow>
      fst (on_bar env bars hasNewBar w) = Inr ()) \<and>
   (\<forall>e. hasNewBar \<and> fst (on_bar_body env bars w) = Inl e \<longrightarrow>
      is_Exception e \<and>
      trace (snd (on_bar env bars hasNewBar w)) =
        trace (snd (on_bar_body env bars w)) @
          [if print_raises env (clock (snd (on_bar_body env bars w))) (BarError e) = None
           then Print (BarError e) else PrintFailed (BarError e)]) \<and>
   (\<forall>x. fst (on_bar env bars hasNewBar w) = Inl x \<longrightarrow>
      (\<exists>e err. fst (on_bar_body env bars w) = Inl e \<and>
         print_raises env (clock (snd (on_bar_body env bars w))) (BarError e) = Some err \<and>
         x = stdout_exn err)) \<and>
   bars_map (snd (on_bar env bars hasNewBar w)) = bars_map w \<and>
   (\<forall>fid. (\<forall>c. map_of (bars_map w) (ident bars) = Some c \<longrightarrow>
              fid \<noteq> file' c \<and> fid \<noteq> writer_file (writer c)) \<longrightarrow>
      get_file (snd (on_bar env bars hasNewBar w)) fid = get_file w fid) \<and>
   (\<forall>p. (\<forall>c f. map_of (bars_map w) (ident bars) = Some c \<and> get_file w (file' c) = Some f \<longrightarrow>
              p \<noteq> f_path f) \<longrightarrow>
      disk (snd (on_bar env bars hasNewBar w)) p = disk w p)"
proof (intro conjI allI impI)
  assume "\<forall>t e. print_raises env t (BarError e) = None"
  then show "fst (on_bar env bars hasNewBar w) = Inr ()" by (rule on_bar_never_raises)
next
  show "bars_map (snd (on_bar env bars hasNewBar w)) = bars_map w"
    using invariantD [OF bars_map_on_bar, of w "bars_map w"] by simp
next
  fix e assume "hasNewBar \<and> fst (on_bar_body env bars w) = Inl e"
  then show "is_Exception e"
    and "trace (snd (on_bar env bars hasNewBar w)) =
        trace (snd (on_bar_body env bars w)) @
          [if print_raises env (clock (snd (on_bar_body env bars w))) (BarError e) = None
           then Print (BarError e) else PrintFailed (BarError e)]"
    using on_bar_logs_error [of env bars w e] on_bar_body_raises_Exception [of env bars w e]
    by simp_all
next
  fix x assume "fst (on_bar env bars hasNewBar w) = Inl x"
  then show "\<exists>e err. fst (on_bar_body env bars w) = Inl e \<and>
         print_raises env (clock (snd (on_bar_body env bars w))) (BarError e) = Some err \<and>
         x = stdout_exn err"
    by (rule on_bar_raises_from_print)
next
  fix fid
  assume "\<forall>c. map_of (bars_map w) (ident bars) = Some c \<longrightarrow>
              fid \<noteq> file' c \<and> fid \<noteq> writer_file (writer c)"
  then show "get_file (snd (on_bar env bars hasNewBar w)) fid = get_file w fid"
    by (simp add: on_bar_other_files)
next
  fix p
  assume "\<forall>c f. map_of (bars_map w) (ident bars) = Some c \<and> get_file w (file' c) = Some f \<longrightarrow>
              p \<noteq> f_path f"
  then show "disk (snd (on_bar env bars hasNewBar w)) p = disk w p"
    by (simp add: on_bar_other_paths)
qed

theorem on_bar_contains_errors_witness:
  "fst (on_bar_body example_env_SPY_fails example_bars example_world) = Inl OSError \<and>
   fst (on_bar example_env_SPY_fails example_bars True example_world) = Inr () \<and>
   trace (snd (on_bar example_env_SPY_fails example_bars True example_world)) =
     [CallWriterow 0 (bar_row example_bar), CallFlush 0, Print (BarError OSError)] \<and>
   bars_map (snd (on_bar example_env_SPY_fails example_bars True example_world)) =
     bars_map example_world \<and>
   get_file (snd (on_bar example_env_SPY_fails example_bars True example_world)) 1 =
     get_file example_world 1 \<and>
   disk (snd (on_bar example_env_SPY_fails example_bars True example_world))
     ''ibkr_candles/QQQ.csv'' = disk example_world ''ibkr_candles/QQQ.csv'' \<and>
   disk_read (snd (on_bar example_env_SPY_fails example_bars_QQQ True
       (snd (on_bar example_env_SPY_fails example_bars True example_world))))
     ''ibkr_candles/QQQ.csv'' =
     [header, bar_row (example_bar\<lparr>close := 12\<rparr>)]"
proof -
  have body: "fst (on_bar_body example_env_SPY_fails example_bars example_world) = Inl OSError"
    "trace (snd (on_bar_body example_env_SPY_fails example_bars example_world)) =
       [CallWriterow 0 (bar_row example_bar), CallFlush 0]"
    by (simp_all add: example_defs example_env_SPY_fails_def on_bar_body_def bind_def
        bars_map_getitem_def last_item_def ret_def writerow_def file_flush_def Let_def
        get_file_def clock_def)
  have pr: "\<forall>t e. print_raises example_env_SPY_fails t (BarError e) = None"
    by (simp add: example_env_SPY_fails_def example_env_def)
  have next_bar: "disk_read (snd (on_bar example_env_SPY_fails example_bars_QQQ True
       (snd (on_bar example_env_SPY_fails example_bars True example_world))))
     ''ibkr_candles/QQQ.csv'' =
     [header, bar_row (example_bar\<lparr>close := 12\<rparr>)]"
    by (simp add: example_defs example_bars_QQQ_def example_env_SPY_fails_def on_bar_def
        on_bar_body_def try_except_Exception_def bind_def bars_map_getitem_def last_item_def
        ret_def writerow_def file_flush_def Let_def get_file_def clock_def print_def
        disk_read_def)
  have other: "\<forall>c. map_of (bars_map example_world) (ident example_bars) = Some c \<longrightarrow>
      1 \<noteq> file' c \<and> 1 \<noteq> writer_file (writer c)"
    "\<forall>c f. map_of (bars_map example_world) (ident example_bars) = Some c \<and>
        get_file example_world (file' c) = Some f \<longrightarrow> ''ibkr_candles/QQQ.csv'' \<noteq> f_path f"
    by (simp_all add: example_defs get_file_def)
  from on_bar_contains_errors [of example_env_SPY_fails example_bars True example_world]
    body pr next_bar other
  show ?thesis by (simp add: clock_def)
qed

text \<open>
  The claim as first stated lets no error leave \<open>on_bar\<close>. When the disk is full and
  standard output is on it, the flush fails, the handler catches that error, and the
  \<open>print\<close> of the message raises in its turn: this second error leaves \<open>on_bar\<close>.
\<close>

theorem on_bar_print_failure_counterexample:
  "fst (on_bar example_env_disk_full example_bars True example_world) = Inl OSError \<and>
   trace (snd (on_bar example_env_disk_full example_bars True example_world)) =
     [CallWriterow 0 (bar_row example_bar), CallFlush 0, PrintFailed (BarError OSError)]"
  by (simp add: example_defs example_env_disk_full_def get_file_def
      on_bar_def on_bar_body_def try_except_Exception_def bind_def ret_def
      raise_def bars_map_getitem_def last_item_def writerow_def file_flush_def Let_def
      clock_def print_def)

end
